theory Spec2Isabelle
  imports Complex_Main "HOL-Library.Sublist" "HOL-Library.Multiset" "HOL-Library.Log_Nat"
begin

section \<open>Python strings\<close>

text \<open>
  A Python \<open>str\<close> is modelled as a \<open>string\<close>, one \<open>char\<close> per code point; the model
  covers the code points below 256.  The functions below are the \<open>str\<close> methods and
  builtins that \<open>app2.py\<close> calls.
\<close>

definition is_space :: "char \<Rightarrow> bool" where
  \<comment> \<open>\<open>str.isspace\<close> on one character: the characters removed by \<open>str.strip()\<close> and
      matched by the regular expression \<open>\s\<close>.\<close>
  "is_space c = (c \<in> set [CHR 0x09, CHR 0x0A, CHR 0x0B, CHR 0x0C, CHR 0x0D,
                            CHR 0x1C, CHR 0x1D, CHR 0x1E, CHR 0x1F, CHR 0x20,
                            CHR 0x85, CHR 0xA0])"

definition strip :: "string \<Rightarrow> string" where
  \<comment> \<open>\<open>s.strip()\<close>\<close>
  "strip s = rev (dropWhile is_space (rev (dropWhile is_space s)))"

fun contains :: "string \<Rightarrow> string \<Rightarrow> bool" where
  \<comment> \<open>\<open>contains sub s\<close> is Python's \<open>sub in s\<close>\<close>
  "contains sub [] = (sub = [])"
| "contains sub (c # cs) = (prefix sub (c # cs) \<or> contains sub cs)"

function split_str :: "string \<Rightarrow> string \<Rightarrow> string list" where
  \<comment> \<open>\<open>split_str sep s\<close> is \<open>s.split(sep)\<close> for a non-empty separator (Python raises
      ValueError on an empty one; the source only splits on \<open>"LONG:"\<close>).\<close>
  "split_str sep [] = [[]]"
| "split_str sep (c # cs) =
     (if sep \<noteq> [] \<and> prefix sep (c # cs)
      then [] # split_str sep (drop (length sep) (c # cs))
      else (case split_str sep cs of
              [] \<Rightarrow> [[c]]
            | p # ps \<Rightarrow> (c # p) # ps))"
  by pat_completeness auto
termination
  by (relation "measure (\<lambda>(sep, s). length s)") (auto simp: neq_Nil_conv)

function replace :: "string \<Rightarrow> string \<Rightarrow> string \<Rightarrow> string" where
  \<comment> \<open>\<open>replace old new s\<close> is \<open>s.replace(old, new)\<close> for a non-empty \<open>old\<close>: every
      occurrence, left to right, without overlap.\<close>
  "replace old new [] = []"
| "replace old new (c # cs) =
     (if old \<noteq> [] \<and> prefix old (c # cs)
      then new @ replace old new (drop (length old) (c # cs))
      else c # replace old new cs)"
  by pat_completeness auto
termination
  by (relation "measure (\<lambda>(old, new, s). length s)") (auto simp: neq_Nil_conv)

definition upper_char :: "char \<Rightarrow> char" where
  "upper_char c =
     (case map_of (zip ''abcdefghijklmnopqrstuvwxyz'' ''ABCDEFGHIJKLMNOPQRSTUVWXYZ'') c of
        Some u \<Rightarrow> u
      | None \<Rightarrow> c)"

definition lower_char :: "char \<Rightarrow> char" where
  "lower_char c =
     (case map_of (zip ''ABCDEFGHIJKLMNOPQRSTUVWXYZ'' ''abcdefghijklmnopqrstuvwxyz'') c of
        Some l \<Rightarrow> l
      | None \<Rightarrow> c)"

definition upper :: "string \<Rightarrow> string" where
  \<comment> \<open>\<open>s.upper()\<close>; letters outside ASCII are left as they are\<close>
  "upper s = map upper_char s"

definition lower :: "string \<Rightarrow> string" where
  "lower s = map lower_char s"

section \<open>Python floats\<close>

text \<open>
  A \<open>float\<close> is an IEEE 754 binary64 value: a finite one is kept as the rational
  number it denotes (the sign of zero is not kept), next to the two infinities and NaN.
\<close>

datatype pyfloat = Finite rat | FInf bool | FNan

definition pow2 :: "int \<Rightarrow> rat" where
  "pow2 e = (if 0 \<le> e then 2 ^ nat e else 1 / 2 ^ nat (- e))"

definition pow10 :: "int \<Rightarrow> rat" where
  "pow10 e = (if 0 \<le> e then 10 ^ nat e else 1 / 10 ^ nat (- e))"

definition ilog2 :: "rat \<Rightarrow> int" where
  \<comment> \<open>the exponent \<open>e\<close> with \<open>2^e \<le> x < 2^(e+1)\<close>, for \<open>x > 0\<close>\<close>
  "ilog2 x = (if 1 \<le> x then bitlen \<lfloor>x\<rfloor> - 1 else - bitlen (\<lceil>1 / x\<rceil> - 1))"

definition round_half_even :: "rat \<Rightarrow> int" where
  "round_half_even x =
     (let f = \<lfloor>x\<rfloor>; d = x - of_int f
      in if d < 1 / 2 then f else if 1 / 2 < d then f + 1 else if even f then f else f + 1)"

definition to_double :: "rat \<Rightarrow> pyfloat" where
  \<comment> \<open>the binary64 value nearest to \<open>x\<close> (ties to even): 53 significant bits, least
      exponent \<open>-1022\<close>, overflow to infinity\<close>
  "to_double x =
     (if x = 0 then Finite 0
      else let a = \<bar>x\<bar>;
               e = max (ilog2 a) (- 1022);
               q = pow2 (e - 52);
               r = of_int (round_half_even (a / q)) * q
           in if pow2 1024 \<le> r then FInf (x < 0) else Finite (if x < 0 then - r else r))"

definition is_digit :: "char \<Rightarrow> bool" where
  "is_digit c = (c \<in> set ''0123456789'')"

definition digit_val :: "char \<Rightarrow> nat" where
  "digit_val c = of_char c - 48"

fun digitpart :: "string \<Rightarrow> bool" where
  \<comment> \<open>\<open>digitpart ::= digit (["_"] digit)*\<close>\<close>
  "digitpart [] = False"
| "digitpart [c] = is_digit c"
| "digitpart (c # d # cs) =
     (is_digit c \<and> (if d = CHR ''_'' then digitpart cs else digitpart (d # cs)))"

definition digits_val :: "string \<Rightarrow> nat" where
  "digits_val s = foldl (\<lambda>a c. 10 * a + digit_val c) 0 (filter is_digit s)"

definition split_sign :: "string \<Rightarrow> bool \<times> string" where
  \<comment> \<open>an optional sign: whether it is \<open>-\<close>, and the rest\<close>
  "split_sign s =
     (case s of
        [] \<Rightarrow> (False, [])
      | c # cs \<Rightarrow> if c = CHR ''-'' then (True, cs)
                  else if c = CHR ''+'' then (False, cs)
                  else (False, s))"

definition parse_exponent :: "string \<Rightarrow> int option" where
  \<comment> \<open>\<open>[sign] digitpart\<close>, the text after \<open>e\<close> or \<open>E\<close>\<close>
  "parse_exponent s =
     (case split_sign s of
        (neg, d) \<Rightarrow>
          if digitpart d
          then Some (if neg then - int (digits_val d) else int (digits_val d))
          else None)"

definition parse_number :: "string \<Rightarrow> (nat \<times> nat) option" where
  \<comment> \<open>\<open>number ::= [digitpart] "." digitpart | digitpart ["."]\<close>: all its digits read as
      one natural number, and how many of them follow the point\<close>
  "parse_number s =
     (let ip = takeWhile (\<lambda>c. c \<noteq> CHR ''.'') s;
          r = dropWhile (\<lambda>c. c \<noteq> CHR ''.'') s
      in case r of
           [] \<Rightarrow> if digitpart ip then Some (digits_val ip, 0) else None
         | _ # fp \<Rightarrow>
             if (ip = [] \<and> digitpart fp) \<or> (digitpart ip \<and> (fp = [] \<or> digitpart fp))
             then Some (digits_val (ip @ fp), length (filter is_digit fp))
             else None)"

definition is_e :: "char \<Rightarrow> bool" where
  "is_e c = (c = CHR ''e'' \<or> c = CHR ''E'')"

definition parse_floatnumber :: "string \<Rightarrow> rat option" where
  \<comment> \<open>\<open>floatnumber ::= number [("e" | "E") [sign] digitpart]\<close>, as an exact rational\<close>
  "parse_floatnumber s =
     (let m = takeWhile (\<lambda>c. \<not> is_e c) s;
          r = dropWhile (\<lambda>c. \<not> is_e c) s
      in case parse_number m of
           None \<Rightarrow> None
         | Some (d, k) \<Rightarrow>
             (case r of
                [] \<Rightarrow> Some (of_nat d * pow10 (- int k))
              | _ # ex \<Rightarrow>
                  (case parse_exponent ex of
                     None \<Rightarrow> None
                   | Some e \<Rightarrow> Some (of_nat d * pow10 (e - int k)))))"

definition float_of_str :: "string \<Rightarrow> pyfloat option" where
  \<comment> \<open>\<open>float(s)\<close> for a \<open>str\<close>; \<open>None\<close> is the ValueError of a string that is not a
      float literal.  Surrounding whitespace is ignored, \<open>inf\<close>, \<open>infinity\<close> and \<open>nan\<close>
      are read in any letter case, and the decimal value is rounded correctly.\<close>
  "float_of_str s =
     (case split_sign (strip s) of
        (neg, body) \<Rightarrow>
          if lower body = ''inf'' \<or> lower body = ''infinity'' then Some (FInf neg)
          else if lower body = ''nan'' then Some FNan
          else map_option (\<lambda>v. to_double (if neg then - v else v)) (parse_floatnumber body))"

section \<open>Values and exceptions\<close>

text \<open>
  A cell of a data frame row, as \<open>convert_to_orders\<close> and \<open>extract_coordinates\<close> can
  meet it: a \<open>str\<close>, \<open>None\<close>, or the float NaN that pandas stores for a missing value.
\<close>

datatype cell = Str string | NoneV | NanV

text \<open>The exceptions of the program and of the library calls it makes, with their text.\<close>

datatype error =
    KeyError string
  | ValueError string
  | TypeError string
  | IndexError string
  | OverflowError string
  | AttributeError string
  | RequestException string

section \<open>CoordinateParser: \<open>extract_coordinates\<close>\<close>

definition extract_coordinates_try :: "cell \<Rightarrow> error + (pyfloat \<times> pyfloat) option" where
  \<comment> \<open>The body of the \<open>try\<close> block: \<open>Inr (Some (lat, lon))\<close> is its \<open>return lat, lon\<close>,
      \<open>Inr None\<close> is falling out of the \<open>if\<close>, \<open>Inl\<close> is an exception raised inside.\<close>
  "extract_coordinates_try coord_str =
     (case coord_str of
        Str s \<Rightarrow>
          if contains ''LAT:'' s \<and> contains ''LONG:'' s then
            (case split_str ''LONG:'' s of
               [] \<Rightarrow> Inl (IndexError ''list index out of range'')
             | p0 # rest \<Rightarrow>
                 (case float_of_str (strip (replace ''LAT:'' [] p0)) of
                    None \<Rightarrow> Inl (ValueError ''could not convert string to float'')
                  | Some lat \<Rightarrow>
                      (case rest of
                         [] \<Rightarrow> Inl (IndexError ''list index out of range'')
                       | p1 # _ \<Rightarrow>
                           (case float_of_str (strip p1) of
                              None \<Rightarrow> Inl (ValueError ''could not convert string to float'')
                            | Some lon \<Rightarrow> Inr (Some (lat, lon))))))
          else Inr None
      | _ \<Rightarrow> Inl (TypeError ''argument is not iterable''))"

definition extract_coordinates :: "cell \<Rightarrow> pyfloat option \<times> pyfloat option" where
  \<comment> \<open>\<open>except Exception: pass\<close>, then \<open>return None, None\<close>\<close>
  "extract_coordinates coord_str =
     (case extract_coordinates_try coord_str of
        Inr (Some (lat, lon)) \<Rightarrow> (Some lat, Some lon)
      | Inr None \<Rightarrow> (None, None)
      | Inl e \<Rightarrow> (None, None))"

definition lat_text :: "string \<Rightarrow> string" where
  \<comment> \<open>the text that is parsed as the latitude: \<open>parts[0].replace("LAT:","").strip()\<close>\<close>
  "lat_text s = strip (replace ''LAT:'' [] (hd (split_str ''LONG:'' s)))"

definition lon_text :: "string \<Rightarrow> string" where
  \<comment> \<open>the text that is parsed as the longitude: \<open>parts[1].strip()\<close>\<close>
  "lon_text s = strip (hd (tl (split_str ''LONG:'' s)))"

section \<open>Orders\<close>

text \<open>
  The order dictionary that \<open>convert_to_orders\<close> builds, as a record: field \<open>o_k\<close> is the
  key \<open>k\<close>, and the fields \<open>p_k\<close> are the keys of the nested dictionary \<open>p\<close>.  The key
  \<open>sequence\<close> is absent until \<open>optimize_route\<close> sets it.  The identifier \<open>id\<close> is \<open>0\<close>
  in a new order and later the value the remote service returned; identifiers are values of
  a type \<open>'id\<close>, compared by equality.  The address \<open>a\<close> is the f-string
  \<open>"{county} (LAT:{lat}, LONG:{lon})"\<close>, kept as the three values it interpolates.  The
  latitude \<open>y\<close> is a float, since a record without one is skipped; the longitude \<open>x\<close> is
  the second component of what \<open>extract_coordinates\<close> returned.
\<close>

datatype address = Address cell pyfloat "pyfloat option"

record order_params =
  p_n :: cell
  p_a :: address
  p_w :: int
  p_c :: cell
  p_cid :: string
  p_uic :: string
  p_cm :: string

record 'id order =
  o_itemId :: int
  o_id :: 'id
  o_n :: cell
  o_oldOrderId :: int
  o_oldOrderFiles :: "string list"
  o_p :: order_params
  o_rp :: string
  o_tf :: int
  o_tt :: int
  o_trt :: int
  o_r :: int
  o_y :: pyfloat
  o_x :: "pyfloat option"
  o_tz :: int
  o_ej :: "(string \<times> string) list"
  o_callMode :: string
  o_dp :: "string list"
  o_cf :: "(string \<times> string) list"
  o_routing_mode :: string
  o_path_type :: string
  o_sequence :: "nat option"

text \<open>What the program shows to the operator: \<open>st.error\<close>, \<open>st.warning\<close>, \<open>st.success\<close>, \<open>st.info\<close>.\<close>

datatype log_entry = Error string | Warning string | Success string | Info string

section \<open>OptimizeRoutes: \<open>optimize_route\<close>\<close>

text \<open>
  The request of one optimization call, and what the call gives back inside the \<open>try\<close>
  block: an exception (raised by \<open>requests.post\<close>, by \<open>resp.json()\<close> on a body that is not
  JSON, or by iterating an \<open>orders\<close> value that is not iterable) with its text; a decoded
  value that is not a dictionary or has no key \<open>orders\<close>; or a dictionary whose \<open>orders\<close>
  value yields the given items.  The remote service is a function from the request: the
  requests of one run differ in their resource.
\<close>

record 'id optimization_params =
  op_orders :: "'id list"
  op_resource :: string
  op_flags :: int
  op_departure :: int
  op_path_type :: string
  op_optimization_type :: string

datatype 'id optimize_response =
    OptRaises string
  | OptNoOrders
  | OptOrders "'id list"

definition add_order ::
  "(string \<times> 'id order list) list \<Rightarrow> 'id order \<Rightarrow> (string \<times> 'id order list) list" where
  \<comment> \<open>One step of the grouping loop.  The dictionary \<open>orders_by_resource\<close> is an association
      list in insertion order, which is the order in which Python iterates it.\<close>
  "add_order orders_by_resource order =
     (let resource = o_rp order;
          d = (if resource \<notin> set (map fst orders_by_resource)
               then orders_by_resource @ [(resource, [])]
               else orders_by_resource)
      in map (\<lambda>(k, v). if k = resource then (k, v @ [order]) else (k, v)) d)"

definition group_orders :: "'id order list \<Rightarrow> (string \<times> 'id order list) list" where
  "group_orders orders = foldl add_order [] orders"

fun set_sequence :: "'id \<Rightarrow> nat \<Rightarrow> 'id order list \<Rightarrow> 'id order list" where
  \<comment> \<open>the inner loop: the first order of the group with this id gets the sequence number,
      then \<open>break\<close>\<close>
  "set_sequence order_id s [] = []"
| "set_sequence order_id s (order # rest) =
     (if o_id order = order_id
      then order\<lparr>o_sequence := Some s\<rparr> # rest
      else order # set_sequence order_id s rest)"

fun assign_sequences :: "nat \<Rightarrow> 'id list \<Rightarrow> 'id order list \<Rightarrow> 'id order list" where
  \<comment> \<open>\<open>for idx, order_id in enumerate(result['orders'])\<close>, from index \<open>idx\<close> on\<close>
  "assign_sequences idx [] resource_orders = resource_orders"
| "assign_sequences idx (order_id # ids) resource_orders =
     assign_sequences (idx + 1) ids (set_sequence order_id (idx + 1) resource_orders)"

definition optimization_request :: "string \<Rightarrow> 'id order list \<Rightarrow> 'id optimization_params" where
  "optimization_request resource resource_orders =
     \<lparr>op_orders = map o_id resource_orders,
      op_resource = resource,
      op_flags = 1,
      op_departure = o_tf (hd resource_orders),
      op_path_type = ''optimal'',
      op_optimization_type = ''time''\<rparr>"

definition optimize_group ::
  "('id optimization_params \<Rightarrow> 'id optimize_response) \<Rightarrow> string \<times> 'id order list \<Rightarrow>
     'id order list \<times> log_entry list" where
  \<comment> \<open>The body of the loop over the groups: the orders it appends to \<open>optimized_orders\<close>
      and the warnings it shows.  \<open>hd\<close> is \<open>resource_orders[0]\<close> of a list of at least two.\<close>
  "optimize_group post g =
     (case g of
        (resource, resource_orders) \<Rightarrow>
          if length resource_orders < 2 then (resource_orders, [])
          else
            (case post (optimization_request resource resource_orders) of
               OptOrders ids \<Rightarrow> (assign_sequences 0 ids resource_orders, [])
             | OptNoOrders \<Rightarrow>
                 (resource_orders,
                  [Warning (''Route optimization failed for resource '' @ resource @
                            ''. Using original order.'')])
             | OptRaises e \<Rightarrow>
                 (resource_orders,
                  [Warning (''Route optimization error for resource '' @ resource @ '': '' @ e)])))"

definition optimize_route ::
  "'id order list \<Rightarrow> ('id optimization_params \<Rightarrow> 'id optimize_response) \<Rightarrow>
     'id order list \<times> log_entry list" where
  "optimize_route orders post =
     foldl (\<lambda>(optimized_orders, log) g.
              case optimize_group post g of
                (os, ws) \<Rightarrow> (optimized_orders @ os, log @ ws))
           ([], []) (group_orders orders)"

text \<open>Two notions used in the proofs: an order without its sequence number, and the
  update of one group of the association list.\<close>

definition no_seq :: "'id order \<Rightarrow> 'id order" where
  "no_seq order = order\<lparr>o_sequence := None\<rparr>"

definition upd_group :: "string \<Rightarrow> 'a \<Rightarrow> (string \<times> 'a list) list \<Rightarrow> (string \<times> 'a list) list" where
  "upd_group r x d = map (\<lambda>(k, v). if k = r then (k, v @ [x]) else (k, v)) d"

text \<open>An order as \<open>convert_to_orders\<close> builds it, with a given identifier and resource, for
  the concrete runs below.\<close>

definition example_order :: "int \<Rightarrow> string \<Rightarrow> int order" where
  "example_order i resource =
     \<lparr>o_itemId = 25601229, o_id = i, o_n = Str ''Acme'', o_oldOrderId = 0, o_oldOrderFiles = [],
      o_p = \<lparr>p_n = Str ''Acme'',
             p_a = Address (Str ''Nairobi'') (Finite (- 1)) (Some (Finite 36)),
             p_w = 2000, p_c = Str ''100'', p_cid = ''C1'', p_uic = ''INV1'',
             p_cm = ''Handle with care''\<rparr>,
      o_rp = resource, o_tf = 1700000000, o_tt = 1700086400, o_trt = 600, o_r = 20,
      o_y = Finite (- 1), o_x = Some (Finite 36), o_tz = 3, o_ej = [], o_callMode = ''create'',
      o_dp = [], o_cf = [(''delivery_notes'', []), (''payment_status'', [])],
      o_routing_mode = ''optimal'', o_path_type = ''optimal'', o_sequence = None\<rparr>"

section \<open>UpdatePaths and CreateOrders: \<open>update_route_paths\<close>, \<open>send_orders\<close>\<close>

definition py_str :: "cell \<Rightarrow> string" where
  \<comment> \<open>\<open>str(v)\<close> of a cell, as an f-string renders it\<close>
  "py_str v = (case v of Str s \<Rightarrow> s | NoneV \<Rightarrow> ''None'' | NanV \<Rightarrow> ''nan'')"

text \<open>
  What one \<open>order/route_update\<close> call gives: an exception raised by \<open>requests.post\<close> or
  \<open>resp.json()\<close>, a dictionary with the key \<open>error\<close> (with the text of its value), or any
  other decoded value.  The service is a function of the number of the call and the order id.
\<close>

datatype update_response = UpdRaises string | UpdError string | UpdOther

definition update_order :: "(nat \<Rightarrow> 'id \<Rightarrow> update_response) \<Rightarrow> nat \<Rightarrow> 'id order \<Rightarrow> log_entry list" where
  \<comment> \<open>the body of the loop of \<open>update_route_paths\<close>, a \<open>try\<close> with \<open>except Exception\<close>: the
      warnings it shows\<close>
  "update_order post k order =
     (case post k (o_id order) of
        UpdError err \<Rightarrow>
          [Warning (''Route update failed for order '' @ py_str (o_n order) @ '': '' @ err)]
      | UpdOther \<Rightarrow> []
      | UpdRaises e \<Rightarrow>
          [Warning (''Route update error for order '' @ py_str (o_n order) @ '': '' @ e)])"

fun update_route_paths_from ::
  "(nat \<Rightarrow> 'id \<Rightarrow> update_response) \<Rightarrow> nat \<Rightarrow> 'id order list \<Rightarrow> log_entry list" where
  "update_route_paths_from post k [] = []"
| "update_route_paths_from post k (order # orders) =
     update_order post k order @ update_route_paths_from post (k + 1) orders"

definition update_route_paths :: "'id order list \<Rightarrow> (nat \<Rightarrow> 'id \<Rightarrow> update_response) \<Rightarrow> log_entry list" where
  "update_route_paths orders post = update_route_paths_from post 0 orders"

text \<open>
  What one \<open>order/update\<close> call of \<open>send_orders\<close> gives: an exception raised by
  \<open>requests.post\<close> (network error) or by \<open>resp.json()\<close> (a body that is not JSON), a
  dictionary with the key \<open>error\<close>, or any other decoded value, which becomes the order's
  id.  The service is a function of the number of the call and the order sent.

  A run of \<open>send_orders\<close> is described by what it has shown, the list \<open>created_orders\<close>,
  the orders it has posted so far, and the exception that ended it, if one did.  The pauses
  of \<open>time.sleep(1)\<close> are not modelled; the pictographs of the messages are left out.
\<close>

datatype 'id create_response = CreateRaises string | CreateError string | CreateOther 'id

record 'id run =
  r_log :: "log_entry list"
  r_created :: "'id order list"
  r_posted :: "'id order list"
  r_raised :: "error option"

fun create_orders ::
  "('id \<Rightarrow> string) \<Rightarrow> (nat \<Rightarrow> 'id order \<Rightarrow> 'id create_response) \<Rightarrow> nat \<Rightarrow>
     'id order list \<Rightarrow> 'id run \<Rightarrow> 'id run" where
  \<comment> \<open>the loop \<open>for o in orders\<close>; \<open>str_id\<close> is \<open>str\<close> on identifiers.  Nothing catches an
      exception of the call: it ends the loop and the function.\<close>
  "create_orders str_id post k [] st = st"
| "create_orders str_id post k (order # orders) st =
     (case post k order of
        CreateRaises e \<Rightarrow>
          st\<lparr>r_posted := r_posted st @ [order], r_raised := Some (RequestException e)\<rparr>
      | CreateError err \<Rightarrow>
          create_orders str_id post (k + 1) orders
            (st\<lparr>r_posted := r_posted st @ [order],
                r_log := r_log st @
                  [Error (''Failed to create order for '' @ py_str (o_n order) @ '': '' @ err)]\<rparr>)
      | CreateOther result \<Rightarrow>
          create_orders str_id post (k + 1) orders
            (st\<lparr>r_posted := r_posted st @ [order],
                r_created := r_created st @ [order\<lparr>o_id := result\<rparr>],
                r_log := r_log st @
                  [Success (''Created order for '' @ py_str (o_n order) @ '' -> ID: '' @
                            str_id result)]\<rparr>))"

definition send_orders ::
  "('id \<Rightarrow> string) \<Rightarrow> 'id order list \<Rightarrow> (nat \<Rightarrow> 'id order \<Rightarrow> 'id create_response) \<Rightarrow>
     ('id optimization_params \<Rightarrow> 'id optimize_response) \<Rightarrow> (nat \<Rightarrow> 'id \<Rightarrow> update_response) \<Rightarrow>
     'id run" where
  "send_orders str_id orders post_create post_optimize post_update =
     (let st = create_orders str_id post_create 0 orders
                 \<lparr>r_log = [], r_created = [], r_posted = [], r_raised = None\<rparr>
      in if r_raised st \<noteq> None then st
         else if r_created st \<noteq> [] then
           (case optimize_route (r_created st) post_optimize of
              (optimized_orders, warnings) \<Rightarrow>
                st\<lparr>r_log := r_log st @ [Info ''Optimizing routes...''] @ warnings @
                       [Info ''Updating routes to follow roads...''] @
                       update_route_paths optimized_orders post_update @
                       [Success ''Routes optimized and updated to follow roads'']\<rparr>)
         else st)"

section \<open>OrderBuilder: \<open>convert_to_orders\<close>\<close>

text \<open>
  A row of the data frame, as \<open>iterrows\<close> yields it: a map from column label to cell.
  \<open>r[key]\<close> raises KeyError for a label the row does not have, \<open>r.get(key)\<close> gives
  \<open>None\<close> for it.
\<close>

type_synonym row = "string \<rightharpoonup> cell"

definition getitem :: "row \<Rightarrow> string \<Rightarrow> error + cell" where
  "getitem r key = (case r key of None \<Rightarrow> Inl (KeyError key) | Some v \<Rightarrow> Inr v)"

definition truthy :: "cell \<Rightarrow> bool" where
  \<comment> \<open>the truth value of a cell in a condition: an empty string and \<open>None\<close> are false,
      NaN is true\<close>
  "truthy v = (case v of Str s \<Rightarrow> s \<noteq> [] | NoneV \<Rightarrow> False | NanV \<Rightarrow> True)"

definition float_of_cell :: "cell \<Rightarrow> error + pyfloat" where
  \<comment> \<open>\<open>float(v)\<close>\<close>
  "float_of_cell v =
     (case v of
        Str s \<Rightarrow>
          (case float_of_str s of
             None \<Rightarrow> Inl (ValueError ''could not convert string to float'')
           | Some x \<Rightarrow> Inr x)
      | NoneV \<Rightarrow> Inl (TypeError ''float() argument must be a string or a real number'')
      | NanV \<Rightarrow> Inr FNan)"

definition times_1000 :: "pyfloat \<Rightarrow> pyfloat" where
  \<comment> \<open>\<open>x * 1000\<close> on floats: the exact product, rounded\<close>
  "times_1000 x = (case x of Finite a \<Rightarrow> to_double (a * 1000) | FInf s \<Rightarrow> FInf s | FNan \<Rightarrow> FNan)"

definition int_of_float :: "pyfloat \<Rightarrow> error + int" where
  \<comment> \<open>\<open>int(x)\<close> on a float: truncation toward zero\<close>
  "int_of_float x =
     (case x of
        Finite a \<Rightarrow> Inr (if 0 \<le> a then \<lfloor>a\<rfloor> else \<lceil>a\<rceil>)
      | FInf s \<Rightarrow> Inl (OverflowError ''cannot convert float infinity to integer'')
      | FNan \<Rightarrow> Inl (ValueError ''cannot convert float NaN to integer''))"

definition order_weight :: "row \<Rightarrow> error + int" where
  \<comment> \<open>\<open>int(float(r.get("TONNAGE",0)) * 1000) if r.get("TONNAGE") else 0\<close>\<close>
  "order_weight r =
     (case r ''TONNAGE'' of
        None \<Rightarrow> Inr 0
      | Some v \<Rightarrow>
          if truthy v then
            (case float_of_cell v of
               Inl e \<Rightarrow> Inl e
             | Inr x \<Rightarrow> int_of_float (times_1000 x))
          else Inr 0)"

definition lookup_asset :: "(string \<rightharpoonup> string) \<Rightarrow> cell \<Rightarrow> string" where
  \<comment> \<open>\<open>county_asset.get(county, "")\<close>; the keys of \<open>county_asset\<close> are strings\<close>
  "lookup_asset county_asset county =
     (case county of
        Str c \<Rightarrow> (case county_asset c of None \<Rightarrow> [] | Some asset \<Rightarrow> asset)
      | _ \<Rightarrow> [])"

definition sbind :: "error + 'a \<Rightarrow> ('a \<Rightarrow> error + 'b) \<Rightarrow> error + 'b" where
  \<comment> \<open>sequencing: an exception of the first step is the exception of the whole\<close>
  "sbind m f = (case m of Inl e \<Rightarrow> Inl e | Inr v \<Rightarrow> f v)"

definition convert_row ::
  "row \<Rightarrow> int \<Rightarrow> int \<Rightarrow> (string \<rightharpoonup> string) \<Rightarrow> error + ('id::zero) order option" where
  \<comment> \<open>The body of the loop, in the order in which Python evaluates it; \<open>Inr None\<close> is
      \<open>continue\<close>.\<close>
  "convert_row r tf tt county_asset =
     sbind (getitem r ''COORDINATES'') (\<lambda>coordinates.
       case extract_coordinates coordinates of
         (None, lon) \<Rightarrow> Inr None
       | (Some lat, lon) \<Rightarrow>
           sbind (order_weight r) (\<lambda>w.
           sbind (getitem r ''Correct County'') (\<lambda>county.
           let asset = lookup_asset county_asset county in
           sbind (getitem r ''CUSTOMER NAME'') (\<lambda>name.
           sbind (getitem r ''CUSTOMER NAME'') (\<lambda>p_name.
           sbind (getitem r ''Correct County'') (\<lambda>a_county.
           sbind (getitem r ''AMOUNT'') (\<lambda>amount.
           sbind (getitem r ''CUSTOMER ID'') (\<lambda>customer_id.
           sbind (getitem r ''INVOICE NO'') (\<lambda>invoice_no.
             Inr (Some
               \<lparr>o_itemId = 25601229,
                o_id = 0,
                o_n = name,
                o_oldOrderId = 0,
                o_oldOrderFiles = [],
                o_p = \<lparr>p_n = p_name,
                       p_a = Address a_county lat lon,
                       p_w = w,
                       p_c = amount,
                       p_cid = py_str customer_id,
                       p_uic = py_str invoice_no,
                       p_cm = ''Handle with care''\<rparr>,
                o_rp = (if asset = [] then ''Unassigned'' else asset),
                o_tf = tf,
                o_tt = tt,
                o_trt = 600,
                o_r = 20,
                o_y = lat,
                o_x = lon,
                o_tz = 3,
                o_ej = [],
                o_callMode = ''create'',
                o_dp = [],
                o_cf = [(''delivery_notes'', []), (''payment_status'', [])],
                o_routing_mode = ''optimal'',
                o_path_type = ''optimal'',
                o_sequence = None\<rparr>))))))))))"

fun convert_to_orders ::
  "row list \<Rightarrow> int \<Rightarrow> int \<Rightarrow> (string \<rightharpoonup> string) \<Rightarrow> error + ('id::zero) order list" where
  "convert_to_orders [] tf tt county_asset = Inr []"
| "convert_to_orders (r # gdf) tf tt county_asset =
     (case convert_row r tf tt county_asset of
        Inl e \<Rightarrow> Inl e
      | Inr None \<Rightarrow> convert_to_orders gdf tf tt county_asset
      | Inr (Some order) \<Rightarrow>
          (case convert_to_orders gdf tf tt county_asset of
             Inl e \<Rightarrow> Inl e
           | Inr orders \<Rightarrow> Inr (order # orders)))"

definition spec_weight :: "row \<Rightarrow> int" where
  \<comment> \<open>The weight in the words of the specification: \<open>tonnage * 1000\<close> rounded to the nearest
      integer if the tonnage is present and numeric, else 0.\<close>
  "spec_weight r =
     (case r ''TONNAGE'' of
        Some (Str s) \<Rightarrow>
          (case float_of_str s of
             Some (Finite a) \<Rightarrow>
               (case to_double (a * 1000) of Finite b \<Rightarrow> round b | _ \<Rightarrow> 0)
           | _ \<Rightarrow> 0)
      | _ \<Rightarrow> 0)"

definition example_row :: "string \<Rightarrow> row" where
  \<comment> \<open>the record of the specification's end-to-end scenario after extraction and region
      matching, with a given tonnage cell\<close>
  "example_row tonnage =
     map_of [(''REP'', Str ''R1''), (''CUSTOMER ID'', Str ''C1''), (''CUSTOMER NAME'', Str ''Acme''),
             (''LOCATION'', Str ''Nairobi''), (''COORDINATES'', Str ''LAT: -1.28 LONG: 36.82''),
             (''INVOICE NO.'', Str ''INV1''), (''AMOUNT'', Str ''100''), (''TONNAGE'', Str tonnage),
             (''Correct County'', Str ''Nairobi'')]"

section \<open>TableExtractor: \<open>read_pdf_to_df\<close>\<close>

text \<open>
  A table of \<open>pdfplumber\<close> is a list of rows, a row a list of cells, a cell a \<open>str\<close> or
  \<open>None\<close>; a page is the list of its tables (\<open>pg.extract_tables() or []\<close>).
\<close>

type_synonym raw_row = "string option list"
type_synonym raw_table = "raw_row list"
type_synonym pdf_page = "raw_table list"

definition REQUIRED_COLUMNS :: "string list" where
  "REQUIRED_COLUMNS = [''REP'', ''CUSTOMER ID'', ''CUSTOMER NAME'', ''LOCATION'', ''COORDINATES'',
                       ''INVOICE NO.'', ''AMOUNT'', ''TONNAGE'']"

definition no_valid_data :: error where
  \<comment> \<open>the exception of line 44; its message has a dash between the two parts\<close>
  "no_valid_data = ValueError ''PDF parsing failed - no valid data found.''"

definition str_opt :: "string option \<Rightarrow> string" where
  \<comment> \<open>\<open>str(c)\<close> of a raw cell\<close>
  "str_opt c = (case c of None \<Rightarrow> ''None'' | Some s \<Rightarrow> s)"

definition cell_truthy :: "string option \<Rightarrow> bool" where
  "cell_truthy c = (case c of None \<Rightarrow> False | Some s \<Rightarrow> s \<noteq> [])"

definition clean_column_names :: "string option list \<Rightarrow> string list" where
  \<comment> \<open>\<open>[str(c).replace("\n"," ").strip() for c in cols if c]\<close>\<close>
  "clean_column_names cols =
     map (\<lambda>c. strip (replace [CHR 0x0A] '' '' (str_opt c))) (filter cell_truthy cols)"

definition is_header_row :: "raw_row \<Rightarrow> bool" where
  \<comment> \<open>\<open>row and row[0] and not row[0].startswith("Sales Order Booking")\<close>\<close>
  "is_header_row row =
     (case row of
        [] \<Rightarrow> False
      | None # _ \<Rightarrow> False
      | Some c # _ \<Rightarrow> c \<noteq> [] \<and> \<not> prefix ''Sales Order Booking'' c)"

fun find_header :: "raw_table \<Rightarrow> string list option" where
  \<comment> \<open>the loop \<open>for row in tbl\<close> with its \<open>break\<close>, started with \<open>header\<close> being \<open>None\<close>\<close>
  "find_header [] = None"
| "find_header (row # tbl) =
     (if is_header_row row then Some (clean_column_names row) else find_header tbl)"

definition not_blank :: "raw_row \<Rightarrow> bool" where
  \<comment> \<open>\<open>any(str(c).strip() for c in r)\<close>\<close>
  "not_blank r = list_ex (\<lambda>c. strip (str_opt c) \<noteq> []) r"

definition header_truthy :: "string list option \<Rightarrow> bool" where
  \<comment> \<open>the truth value of \<open>header\<close>: neither \<open>None\<close> nor an empty list\<close>
  "header_truthy header = (header \<noteq> None \<and> header \<noteq> Some [])"

definition scan_table ::
  "nat \<Rightarrow> string list option \<times> raw_row list \<Rightarrow> raw_table \<Rightarrow> string list option \<times> raw_row list" where
  \<comment> \<open>The body of the loop over the tables of page \<open>i\<close> (lines 33 to 41), on the pair of
      \<open>header\<close> and \<open>all_rows\<close>.  \<open>tl tbl\<close> is \<open>tbl[1:]\<close>.\<close>
  "scan_table i st tbl =
     (case st of
        (header, all_rows) \<Rightarrow>
          if i = 0 \<and> header = None then
            (let header' = find_header tbl;
                 data = (if header_truthy header' then tl tbl else [])
             in (header', all_rows @ filter not_blank data))
          else (header, all_rows @ filter not_blank tbl))"

definition scan_pages :: "pdf_page list \<Rightarrow> string list option \<times> raw_row list" where
  \<comment> \<open>the two nested loops of lines 31 and 32\<close>
  "scan_pages pages =
     foldl (\<lambda>st (i, pg). foldl (scan_table i) st pg) (None, []) (zip [0..<length pages] pages)"

function collapse_newlines :: "string \<Rightarrow> string" where
  \<comment> \<open>\<open>replace(r"\s*\n\s*", " ", regex=True)\<close>: every maximal run of whitespace that
      holds a newline becomes one space\<close>
  "collapse_newlines [] = []"
| "collapse_newlines (c # cs) =
     (if is_space c then
        (let run = takeWhile is_space (c # cs);
             rest = dropWhile is_space (c # cs)
         in if CHR 0x0A \<in> set run then CHR '' '' # collapse_newlines rest
            else run @ collapse_newlines rest)
      else c # collapse_newlines cs)"
  by pat_completeness auto
termination
  by (relation "measure length") (auto simp: le_imp_less_Suc length_dropWhile_le)

definition data_frame :: "raw_row list \<Rightarrow> string list \<Rightarrow> error + string list \<times> raw_row list" where
  \<comment> \<open>\<open>pd.DataFrame(all_rows, columns=cols)\<close>: short rows are filled with \<open>None\<close>; the
      number of labels has to be the length of the longest row\<close>
  "data_frame all_rows cols =
     (let width = foldr (\<lambda>r. max (length r)) all_rows 0
      in if length cols \<noteq> width
         then Inl (ValueError ''columns passed do not match the columns of the data'')
         else Inr (cols, map (\<lambda>r. r @ replicate (width - length r) None) all_rows))"

definition repeats_header :: "raw_row \<Rightarrow> bool" where
  \<comment> \<open>line 47: \<open>any(str(c).strip().upper() in REQUIRED_COLUMNS for c in r)\<close>\<close>
  "repeats_header r = list_ex (\<lambda>c. upper (strip (str_opt c)) \<in> set REQUIRED_COLUMNS) r"

definition has_noise :: "raw_row \<Rightarrow> bool" where
  \<comment> \<open>line 48: some cell, as a string, matches \<open>Fixed|Driver Sign|Mileage|Cartons\<close> without
      regard to letter case\<close>
  "has_noise r =
     list_ex (\<lambda>c. list_ex (\<lambda>m. contains m (lower (str_opt c)))
                     [''fixed'', ''driver sign'', ''mileage'', ''cartons'']) r"

definition is_required :: "string \<Rightarrow> bool" where
  "is_required c = (upper (strip c) \<in> set REQUIRED_COLUMNS)"

definition select_columns :: "string list \<Rightarrow> 'a list \<Rightarrow> 'a list" where
  \<comment> \<open>line 49 on one row: the cells under the labels that are required columns\<close>
  "select_columns cols r = map snd (filter (\<lambda>(c, v). is_required c) (zip cols r))"

definition clean_cell :: "string option \<Rightarrow> string" where
  \<comment> \<open>line 52 on one cell: \<open>astype(str)\<close>, the regular expression, \<open>strip\<close>\<close>
  "clean_cell v = strip (collapse_newlines (str_opt v))"

definition notna :: "string \<Rightarrow> bool" where
  \<comment> \<open>\<open>notna\<close> on a cell that is a \<open>str\<close>: a string, even an empty one, is not missing\<close>
  "notna v = True"

definition coordinate_isna :: "pyfloat option \<Rightarrow> bool" where
  \<comment> \<open>what \<open>dropna\<close> takes for missing in the columns \<open>LAT\<close> and \<open>LONG\<close>: \<open>None\<close> and NaN\<close>
  "coordinate_isna v = (v = None \<or> v = Some FNan)"

text \<open>A record of the frame after line 56: its cells by column label, in column order, and
  the two coordinates.\<close>

record extracted =
  x_cells :: "(string \<times> string) list"
  x_lat :: "pyfloat option"
  x_long :: "pyfloat option"

definition lookup_column :: "string \<Rightarrow> (string \<times> string) list \<Rightarrow> error + string" where
  \<comment> \<open>\<open>df[label]\<close> on one row; KeyError for a label that is not a column\<close>
  "lookup_column label cells =
     (case map_of cells label of None \<Rightarrow> Inl (KeyError label) | Some v \<Rightarrow> Inr v)"

definition add_coordinates :: "string list \<Rightarrow> string list list \<Rightarrow> error + extracted list" where
  \<comment> \<open>Lines 55 and 56: the columns \<open>LAT\<close> and \<open>LONG\<close> from \<open>COORDINATES\<close>, then \<open>dropna\<close>.
      On a frame without rows the assignment of line 55 raises.\<close>
  "add_coordinates cols rows =
     (if ''COORDINATES'' \<notin> set cols then Inl (KeyError ''COORDINATES'')
      else if rows = [] then Inl (ValueError ''Columns must be same length as key'')
      else Inr (filter (\<lambda>x. \<not> coordinate_isna (x_lat x) \<and> \<not> coordinate_isna (x_long x))
             (map (\<lambda>r. case extract_coordinates (Str (the (map_of (zip cols r) ''COORDINATES''))) of
                          (lat, lon) \<Rightarrow> \<lparr>x_cells = zip cols r, x_lat = lat, x_long = lon\<rparr>)
                  rows)))"

definition clean_frame :: "string list \<Rightarrow> raw_row list \<Rightarrow> error + extracted list" where
  \<comment> \<open>Lines 47 to 56 on the frame of line 46.  With two columns of the same name
      \<open>df[c]\<close> is a frame, which has no \<open>.str\<close>.\<close>
  "clean_frame cols rows =
     (let rows1 = filter (\<lambda>r. \<not> repeats_header r) rows;
          rows2 = filter (\<lambda>r. \<not> has_noise r) rows1;
          cols3 = map (\<lambda>c. upper (strip c)) (filter is_required cols);
          rows3 = map (select_columns cols) rows2
      in if \<not> distinct cols3 then Inl (AttributeError ''DataFrame object has no attribute str'')
         else
           (let rows4 = map (map clean_cell) rows3
            in if ''CUSTOMER ID'' \<notin> set cols3 then Inl (KeyError ''CUSTOMER ID'')
               else
                 (let rows5 = filter (\<lambda>r. list_ex notna r)
                                (filter (\<lambda>r. notna (the (map_of (zip cols3 r) ''CUSTOMER ID''))) rows4)
                  in add_coordinates cols3 rows5)))"

definition read_pdf_to_df :: "pdf_page list \<Rightarrow> error + extracted list" where
  \<comment> \<open>Lines 29 to 56: the frame before the cluster and county columns are attached.  The
      later lines are calls into scikit-learn and geopandas; they keep the cells of the
      records.\<close>
  "read_pdf_to_df pages =
     (case scan_pages pages of
        (header, all_rows) \<Rightarrow>
          if \<not> header_truthy header \<or> all_rows = [] then Inl no_valid_data
          else
            (case data_frame all_rows (clean_column_names (map Some (the header))) of
               Inl e \<Rightarrow> Inl e
             | Inr (cols, rows) \<Rightarrow> clean_frame cols rows))"

section \<open>Facts about the string functions\<close>

declare split_str.simps [simp del] replace.simps [simp del]


lemma dropWhile_all: "(\<And>x. x \<in> set xs \<Longrightarrow> P x) \<Longrightarrow> dropWhile P xs = []"
  by (induction xs) auto

lemma strip_pad:
  assumes "\<And>c. c \<in> set x \<Longrightarrow> is_space c" "\<And>c. c \<in> set y \<Longrightarrow> is_space c"
  shows "strip (x @ s @ y) = strip s"
proof (cases "\<forall>c\<in>set s. is_space c")
  case True
  have a: "dropWhile is_space (x @ s @ y) = []"
    using True assms by (intro dropWhile_all) auto
  have b: "dropWhile is_space s = []"
    using True by (intro dropWhile_all) auto
  show ?thesis unfolding strip_def a b by simp
next
  case False
  then obtain c where c: "c \<in> set s" "\<not> is_space c" by blast
  have "dropWhile is_space (x @ s @ y) = dropWhile is_space s @ y"
    using assms(1) c by (simp add: dropWhile_append2 dropWhile_append1)
  moreover have "dropWhile is_space (rev y @ rev (dropWhile is_space s)) = dropWhile is_space (rev (dropWhile is_space s))"
    using assms(2) by (intro dropWhile_append2) auto
  ultimately show ?thesis by (simp add: strip_def)
qed

lemma strip_strip: "strip (strip s) = strip s"
proof -
  define t where "t = dropWhile is_space s"
  define u where "u = rev (dropWhile is_space (rev t))"
  have "dropWhile is_space u = u"
  proof (cases u)
    case Nil then show ?thesis by simp
  next
    case (Cons a as)
    have "rev t = takeWhile is_space (rev t) @ rev u"
      unfolding u_def by simp
    then have "t = u @ rev (takeWhile is_space (rev t))"
      by (metis rev_append rev_rev_ident)
    then have "hd t = a" "t \<noteq> []" using Cons by (metis hd_append2 list.sel(1) list.distinct(1), auto)
    then have "\<not> is_space a" unfolding t_def using hd_dropWhile by metis
    then show ?thesis using Cons by simp
  qed
  then show ?thesis by (simp add: strip_def u_def t_def)
qed

lemma float_of_str_strip: "float_of_str (strip s) = float_of_str s"
  by (simp add: float_of_str_def strip_strip)

lemma split_str_free:
  "CHR ''L'' \<notin> set u \<Longrightarrow>
   split_str ''LONG:'' (u @ w) = (case split_str ''LONG:'' w of [] \<Rightarrow> [u] | p # ps \<Rightarrow> (u @ p) # ps)"
proof (induction u)
  case Nil
  show ?case by (cases w) (auto simp: split_str.simps split: list.splits)
next
  case (Cons c u)
  then have "\<not> prefix ''LONG:'' (c # u @ w)" by (auto simp: prefix_Cons)
  with Cons show ?case by (auto simp: split_str.simps split: list.splits)
qed

lemma replace_free:
  "CHR ''L'' \<notin> set u \<Longrightarrow> replace ''LAT:'' new (u @ w) = u @ replace ''LAT:'' new w"
  by (induction u) (auto simp: prefix_Cons replace.simps)


lemma digitpart_chars: "digitpart s \<Longrightarrow> c \<in> set s \<Longrightarrow> is_digit c \<or> c = CHR ''_''"
  by (induction s rule: digitpart.induct) (auto split: if_splits)

lemma digitpart_no_L: "digitpart s \<Longrightarrow> CHR ''L'' \<notin> set s"
  using digitpart_chars [of s "CHR ''L''"] by (auto simp: is_digit_def)

lemma split_sign_set: "split_sign s = (neg, r) \<Longrightarrow> set s \<subseteq> set r \<union> {CHR ''-'', CHR ''+''}"
  by (auto simp: split_sign_def split: list.splits if_splits)

lemma parse_exponent_no_L: "parse_exponent s = Some e \<Longrightarrow> CHR ''L'' \<notin> set s"
  by (auto simp: parse_exponent_def split: prod.splits if_splits
           dest!: split_sign_set digitpart_no_L)

lemma parse_number_no_L:
  assumes "parse_number s = Some v" shows "CHR ''L'' \<notin> set s"
proof -
  let ?P = "\<lambda>c. c \<noteq> CHR ''.''"
  have s: "s = takeWhile ?P s @ dropWhile ?P s" by simp
  show ?thesis
  proof (cases "dropWhile ?P s")
    case Nil
    with assms have "digitpart (takeWhile ?P s)"
      by (auto simp: parse_number_def Let_def split: if_splits)
    then have "CHR ''L'' \<notin> set (takeWhile ?P s)" by (rule digitpart_no_L)
    with Nil s show ?thesis by (metis append_Nil2)
  next
    case (Cons d fp)
    then have d: "d = CHR ''.''" using hd_dropWhile [of ?P s] by auto
    from assms Cons have "(takeWhile ?P s = [] \<or> digitpart (takeWhile ?P s)) \<and> (fp = [] \<or> digitpart fp)"
      by (auto simp: parse_number_def Let_def split: if_splits)
    then have "CHR ''L'' \<notin> set (takeWhile ?P s)" "CHR ''L'' \<notin> set fp"
      using digitpart_no_L by auto
    then have "CHR ''L'' \<notin> set (takeWhile ?P s @ d # fp)" using d by simp
    with Cons s show ?thesis by metis
  qed
qed

lemma parse_floatnumber_no_L:
  assumes "parse_floatnumber s = Some v" shows "CHR ''L'' \<notin> set s"
proof -
  let ?P = "\<lambda>c. \<not> is_e c"
  have s: "s = takeWhile ?P s @ dropWhile ?P s" by simp
  from assms obtain w where w: "parse_number (takeWhile ?P s) = Some w"
    by (auto simp: parse_floatnumber_def Let_def split: option.splits)
  then have m: "CHR ''L'' \<notin> set (takeWhile ?P s)" by (rule parse_number_no_L)
  show ?thesis
  proof (cases "dropWhile ?P s")
    case Nil
    with m s show ?thesis by (metis append_Nil2)
  next
    case (Cons d ex)
    then have d: "is_e d" using hd_dropWhile [of ?P s] by auto
    from assms Cons w obtain e where "parse_exponent ex = Some e"
      by (auto simp: parse_floatnumber_def Let_def split: option.splits prod.splits)
    then have "CHR ''L'' \<notin> set ex" by (rule parse_exponent_no_L)
    then have "CHR ''L'' \<notin> set (takeWhile ?P s @ d # ex)" using d m by (auto simp: is_e_def)
    with Cons s show ?thesis by metis
  qed
qed

lemma lower_L: "CHR ''L'' \<in> set s \<Longrightarrow> CHR ''l'' \<in> set (lower s)"
proof -
  assume "CHR ''L'' \<in> set s"
  then have "lower_char (CHR ''L'') \<in> set (lower s)" unfolding lower_def by simp
  moreover have "lower_char (CHR ''L'') = CHR ''l''" by (simp add: lower_char_def)
  ultimately show ?thesis by simp
qed

lemma set_strip: "set (strip s) \<subseteq> set s"
proof
  fix c assume "c \<in> set (strip s)"
  then have "c \<in> set (dropWhile is_space (rev (dropWhile is_space s)))" by (simp add: strip_def)
  then have "c \<in> set (rev (dropWhile is_space s))" by (rule set_dropWhileD)
  then have "c \<in> set (dropWhile is_space s)" by simp
  then show "c \<in> set s" by (rule set_dropWhileD)
qed

lemma strip_decomp: "\<exists>x y. s = x @ strip s @ y \<and> (\<forall>c\<in>set x. is_space c) \<and> (\<forall>c\<in>set y. is_space c)"
proof -
  let ?t = "dropWhile is_space s"
  have 1: "s = takeWhile is_space s @ ?t" by simp
  have "rev ?t = takeWhile is_space (rev ?t) @ dropWhile is_space (rev ?t)" by simp
  then have 2: "?t = strip s @ rev (takeWhile is_space (rev ?t))"
    unfolding strip_def by (metis rev_append rev_rev_ident)
  have "s = takeWhile is_space s @ strip s @ rev (takeWhile is_space (rev ?t))"
    using 1 2 by metis
  moreover have "\<forall>c\<in>set (takeWhile is_space s). is_space c" by (auto dest: set_takeWhileD)
  moreover have "\<forall>c\<in>set (rev (takeWhile is_space (rev ?t))). is_space c" by (auto dest: set_takeWhileD)
  ultimately show ?thesis by blast
qed

lemma float_of_str_no_L:
  assumes "float_of_str s = Some v" shows "CHR ''L'' \<notin> set s"
proof
  assume L: "CHR ''L'' \<in> set s"
  obtain x y where xy: "s = x @ strip s @ y" "\<forall>c\<in>set x. is_space c" "\<forall>c\<in>set y. is_space c"
    using strip_decomp by blast
  have nsp: "\<not> is_space (CHR ''L'')" by (simp add: is_space_def)
  have "CHR ''L'' \<in> set x \<union> set (strip s) \<union> set y" using L xy(1) by (metis set_append Un_assoc)
  then have Ls: "CHR ''L'' \<in> set (strip s)" using xy nsp by auto
  obtain neg body where sb: "split_sign (strip s) = (neg, body)" by (cases "split_sign (strip s)")
  then have Lb: "CHR ''L'' \<in> set body" using Ls split_sign_set [OF sb] by auto
  then have l: "CHR ''l'' \<in> set (lower body)" by (rule lower_L)
  have "CHR ''l'' \<notin> set ''inf''" "CHR ''l'' \<notin> set ''infinity''" "CHR ''l'' \<notin> set ''nan''" by simp_all
  with l have "lower body \<noteq> ''inf''" "lower body \<noteq> ''infinity''" "lower body \<noteq> ''nan''" by metis+
  with assms sb obtain r where "parse_floatnumber body = Some r"
    by (auto simp: float_of_str_def)
  then show False using Lb parse_floatnumber_no_L by blast
qed

lemma contains_append: "contains sub w \<Longrightarrow> contains sub (u @ w)"
  by (induction u) simp_all

lemma contains_self_append: "contains sub (sub @ v)"
proof (cases "sub @ v")
  case Nil
  then show ?thesis by simp
next
  case (Cons c cs)
  have "prefix sub (sub @ v)" by simp
  then have "prefix sub (c # cs)" unfolding Cons .
  then have "contains sub (c # cs)" by simp
  then show ?thesis unfolding Cons .
qed

lemma split_coords:
  assumes "CHR ''L'' \<notin> set a" "CHR ''L'' \<notin> set b"
  shows "split_str ''LONG:'' (''LAT: '' @ a @ '' LONG: '' @ b) = [''LAT: '' @ a @ '' '', '' '' @ b]"
proof -
  have "split_str ''LONG:'' (('' '' @ b) @ []) = ['' '' @ b]"
    using assms(2) by (subst split_str_free) (simp_all add: split_str.simps)
  then have b: "split_str ''LONG:'' ('' '' @ b) = ['' '' @ b]" by simp
  have "split_str ''LONG:'' (''LONG: '' @ b) = [] # split_str ''LONG:'' ('' '' @ b)"
    by (simp add: split_str.simps)
  then have w: "split_str ''LONG:'' (''LONG: '' @ b) = [[], '' '' @ b]"
    using b by simp
  have "CHR ''L'' \<notin> set (''AT: '' @ a @ '' '')" using assms(1) by simp
  then have "split_str ''LONG:'' ((''AT: '' @ a @ '' '') @ (''LONG: '' @ b)) =
      (case split_str ''LONG:'' (''LONG: '' @ b) of [] \<Rightarrow> [''AT: '' @ a @ '' '']
        | p # ps \<Rightarrow> ((''AT: '' @ a @ '' '') @ p) # ps)"
    by (rule split_str_free)
  then have "split_str ''LONG:'' ((''AT: '' @ a @ '' '') @ (''LONG: '' @ b)) = [(''AT: '' @ a @ '' ''), '' '' @ b]"
    unfolding w by simp
  then have t: "split_str ''LONG:'' (''AT: '' @ a @ '' LONG: '' @ b) = [''AT: '' @ a @ '' '', '' '' @ b]"
    by simp
  have "split_str ''LONG:'' (CHR ''L'' # (''AT: '' @ a @ '' LONG: '' @ b)) =
         (case split_str ''LONG:'' (''AT: '' @ a @ '' LONG: '' @ b) of [] \<Rightarrow> [[CHR ''L'']]
            | p # ps \<Rightarrow> (CHR ''L'' # p) # ps)"
    by (subst split_str.simps) simp
  then show ?thesis unfolding t by simp
qed

lemma replace_coords:
  assumes "CHR ''L'' \<notin> set a"
  shows "replace ''LAT:'' [] (''LAT: '' @ a @ '' '') = '' '' @ a @ '' ''"
proof -
  have "CHR ''L'' \<notin> set ('' '' @ a @ '' '')" using assms by simp
  then have "replace ''LAT:'' [] (('' '' @ a @ '' '') @ []) = ('' '' @ a @ '' '') @ replace ''LAT:'' [] []"
    by (rule replace_free)
  then have r: "replace ''LAT:'' [] ('' '' @ a @ '' '') = '' '' @ a @ '' ''"
    by (simp add: replace.simps)
  have "replace ''LAT:'' [] (''LAT:'' @ ('' '' @ a @ '' '')) = replace ''LAT:'' [] ('' '' @ a @ '' '')"
    by (simp add: replace.simps)
  then show ?thesis using r by simp
qed

lemma float_pad:
  "float_of_str (strip ('' '' @ a @ '' '')) = float_of_str a"
  "float_of_str (strip ('' '' @ b)) = float_of_str b"
proof -
  have "strip ('' '' @ a @ '' '') = strip a"
    using strip_pad [of "'' ''" "'' ''" a] by (simp add: is_space_def)
  then show "float_of_str (strip ('' '' @ a @ '' '')) = float_of_str a"
    by (simp only: float_of_str_strip)
  have "strip ('' '' @ b @ []) = strip b"
    using strip_pad [of "'' ''" "[]" b] by (simp add: is_space_def)
  then have "strip ('' '' @ b) = strip b" by simp
  then show "float_of_str (strip ('' '' @ b)) = float_of_str b"
    by (simp only: float_of_str_strip)
qed

lemma contains_coords:
  "contains ''LAT:'' (''LAT: '' @ a @ '' LONG: '' @ b)"
  "contains ''LONG:'' (''LAT: '' @ a @ '' LONG: '' @ b)"
proof -
  show "contains ''LAT:'' (''LAT: '' @ a @ '' LONG: '' @ b)" by simp
  have "contains ''LONG:'' ((''LAT: '' @ a @ '' '') @ (''LONG:'' @ ('' '' @ b)))"
    by (intro contains_append contains_self_append)
  then show "contains ''LONG:'' (''LAT: '' @ a @ '' LONG: '' @ b)" by simp
qed

lemma extract_coordinates_try_coords:
  assumes "CHR ''L'' \<notin> set a" "CHR ''L'' \<notin> set b"
  shows "extract_coordinates_try (Str (''LAT: '' @ a @ '' LONG: '' @ b)) =
           (case float_of_str a of
              None \<Rightarrow> Inl (ValueError ''could not convert string to float'')
            | Some lat \<Rightarrow>
                (case float_of_str b of
                   None \<Rightarrow> Inl (ValueError ''could not convert string to float'')
                 | Some lon \<Rightarrow> Inr (Some (lat, lon))))"
  unfolding extract_coordinates_try_def cell.case
  by (simp only: contains_coords split_coords [OF assms] replace_coords [OF assms(1)]
        float_pad(1) [of a] float_pad(2) [of b] list.case if_True simp_thms)

lemma extract_coordinates_coords:
  assumes "CHR ''L'' \<notin> set a" "CHR ''L'' \<notin> set b"
  shows "extract_coordinates (Str (''LAT: '' @ a @ '' LONG: '' @ b)) =
           (case float_of_str a of
              None \<Rightarrow> (None, None)
            | Some lat \<Rightarrow>
                (case float_of_str b of
                   None \<Rightarrow> (None, None)
                 | Some lon \<Rightarrow> (Some lat, Some lon)))"
  unfolding extract_coordinates_def extract_coordinates_try_coords [OF assms]
  by (simp split: option.splits)

lemma extract_coordinates_try_texts:
  "extract_coordinates_try (Str s) = Inr (Some (lat, lon)) \<Longrightarrow>
     contains ''LAT:'' s \<and> contains ''LONG:'' s \<and>
     float_of_str (lat_text s) = Some lat \<and> float_of_str (lon_text s) = Some lon"
  unfolding extract_coordinates_try_def lat_text_def lon_text_def
  by (cases "split_str ''LONG:'' s"; cases "tl (split_str ''LONG:'' s)")
     (auto split: if_splits option.splits)

lemma extract_coordinates_cases:
  "extract_coordinates c = (None, None) \<or>
     (\<exists>x y. extract_coordinates c = (Some x, Some y) \<and> extract_coordinates_try c = Inr (Some (x, y)))"
  unfolding extract_coordinates_def
  by (cases "extract_coordinates_try c") (auto split: option.splits)

section \<open>Evaluating floats\<close>

lemma bitlen_num: "bitlen (numeral k) = bitlen (numeral k div 2) + 1" "bitlen 1 = 1"
  by (subst compute_bitlen, simp)+

lemma floor_rat_num: "\<lfloor>(numeral a :: rat) / numeral b\<rfloor> = numeral a div numeral b"
  by (metis floor_divide_of_int_eq of_int_numeral)

lemma ceiling_rat_num: "\<lceil>(numeral a :: rat) / numeral b\<rceil> = - (- numeral a div numeral b)"
  by (metis ceiling_def floor_divide_of_int_eq minus_divide_left of_int_minus of_int_numeral)

lemmas float_eval = to_double_def ilog2_def round_half_even_def pow2_def bitlen_num Let_def
  floor_rat_num ceiling_rat_num

lemmas parse_eval = float_of_str_def strip_def is_space_def split_sign_def lower_def lower_char_def
  parse_floatnumber_def is_e_def parse_number_def parse_exponent_def is_digit_def digits_val_def
  digit_val_def pow10_def

lemma f1: "float_of_str ''-1.28'' = Some (Finite (- (5764607523034235 / 4503599627370496)))"
  by (simp add: parse_eval float_eval)

lemma f2: "float_of_str ''36.82'' = Some (Finite (5181954321243177 / 140737488355328))"
  by (simp add: parse_eval float_eval)

lemma f3: "float_of_str ''north'' = None"
  by (simp add: parse_eval)

section \<open>CoordinateParser\<close>

text \<open>
  C7.  For a string \<open>LAT: a LONG: b\<close> whose \<open>a\<close> and \<open>b\<close> are float literals,
  \<open>extract_coordinates\<close> returns the pair of their values; for a string that lacks one
  of the two markers, or whose latitude or longitude text is not a float literal, it returns
  \<open>(None, None)\<close>; on every argument it returns, with both components absent or both
  present.
\<close>

theorem extract_coordinates_spec:
  "(\<forall>a b x y. float_of_str a = Some x \<and> float_of_str b = Some y \<longrightarrow>
       extract_coordinates (Str (''LAT: '' @ a @ '' LONG: '' @ b)) = (Some x, Some y))
   \<and> (\<forall>s. \<not> contains ''LAT:'' s \<or> \<not> contains ''LONG:'' s \<longrightarrow>
       extract_coordinates (Str s) = (None, None))
   \<and> (\<forall>s. float_of_str (lat_text s) = None \<or> float_of_str (lon_text s) = None \<longrightarrow>
       extract_coordinates (Str s) = (None, None))
   \<and> (\<forall>a b. CHR ''L'' \<notin> set a \<and> CHR ''L'' \<notin> set b \<and>
            (float_of_str a = None \<or> float_of_str b = None) \<longrightarrow>
       extract_coordinates (Str (''LAT: '' @ a @ '' LONG: '' @ b)) = (None, None))
   \<and> (\<forall>c. extract_coordinates c = (None, None) \<or>
            (\<exists>x y. extract_coordinates c = (Some x, Some y)))"
proof (intro conjI allI impI)
  fix a b x y
  assume h: "float_of_str a = Some x \<and> float_of_str b = Some y"
  then have "CHR ''L'' \<notin> set a" "CHR ''L'' \<notin> set b" by (auto dest: float_of_str_no_L)
  then have "extract_coordinates (Str (''LAT: '' @ a @ '' LONG: '' @ b)) =
           (case float_of_str a of
              None \<Rightarrow> (None, None)
            | Some lat \<Rightarrow>
                (case float_of_str b of
                   None \<Rightarrow> (None, None)
                 | Some lon \<Rightarrow> (Some lat, Some lon)))"
    by (rule extract_coordinates_coords)
  also have "\<dots> = (Some x, Some y)" using h by simp
  finally show "extract_coordinates (Str (''LAT: '' @ a @ '' LONG: '' @ b)) = (Some x, Some y)" .
next
  fix s
  assume "\<not> contains ''LAT:'' s \<or> \<not> contains ''LONG:'' s"
  then have "extract_coordinates_try (Str s) = Inr None"
    unfolding extract_coordinates_try_def by auto
  then show "extract_coordinates (Str s) = (None, None)"
    by (simp add: extract_coordinates_def)
next
  fix s
  assume h: "float_of_str (lat_text s) = None \<or> float_of_str (lon_text s) = None"
  show "extract_coordinates (Str s) = (None, None)"
    using extract_coordinates_cases [of "Str s"] extract_coordinates_try_texts [of s] h
    by fastforce
next
  fix a b
  assume h: "CHR ''L'' \<notin> set a \<and> CHR ''L'' \<notin> set b \<and>
            (float_of_str a = None \<or> float_of_str b = None)"
  then have "extract_coordinates (Str (''LAT: '' @ a @ '' LONG: '' @ b)) =
           (case float_of_str a of
              None \<Rightarrow> (None, None)
            | Some lat \<Rightarrow>
                (case float_of_str b of
                   None \<Rightarrow> (None, None)
                 | Some lon \<Rightarrow> (Some lat, Some lon)))"
    by (intro extract_coordinates_coords) auto
  also have "\<dots> = (None, None)" using h by (auto split: option.splits)
  finally show "extract_coordinates (Str (''LAT: '' @ a @ '' LONG: '' @ b)) = (None, None)" .
next
  fix c
  show "extract_coordinates c = (None, None) \<or>
            (\<exists>x y. extract_coordinates c = (Some x, Some y))"
    using extract_coordinates_cases [of c] by blast
qed

theorem extract_coordinates_spec_witness:
  "extract_coordinates (Str ''LAT: -1.28 LONG: 36.82'') =
     (Some (Finite (- (5764607523034235 / 4503599627370496))),
      Some (Finite (5181954321243177 / 140737488355328)))
   \<and> extract_coordinates (Str ''Nairobi'') = (None, None)
   \<and> extract_coordinates (Str ''LAT: north LONG: 36.82'') = (None, None)"
proof -
  have xy: "float_of_str ''-1.28'' = Some (Finite (- (5764607523034235 / 4503599627370496))) \<and>
            float_of_str ''36.82'' = Some (Finite (5181954321243177 / 140737488355328))"
    using f1 f2 by simp
  have "extract_coordinates (Str (''LAT: '' @ ''-1.28'' @ '' LONG: '' @ ''36.82'')) =
     (Some (Finite (- (5764607523034235 / 4503599627370496))),
      Some (Finite (5181954321243177 / 140737488355328)))"
    using extract_coordinates_spec [THEN conjunct1, rule_format, OF xy] .
  then have 1: "extract_coordinates (Str ''LAT: -1.28 LONG: 36.82'') =
     (Some (Finite (- (5764607523034235 / 4503599627370496))),
      Some (Finite (5181954321243177 / 140737488355328)))" by simp
  have m: "\<not> contains ''LAT:'' ''Nairobi'' \<or> \<not> contains ''LONG:'' ''Nairobi''" by simp
  have 2: "extract_coordinates (Str ''Nairobi'') = (None, None)"
    using extract_coordinates_spec [THEN conjunct2, THEN conjunct1, rule_format, OF m] .
  have "CHR ''L'' \<notin> set ''north'' \<and> CHR ''L'' \<notin> set ''36.82'' \<and>
        (float_of_str ''north'' = None \<or> float_of_str ''36.82'' = None)"
    using f3 by simp
  then have "extract_coordinates (Str (''LAT: '' @ ''north'' @ '' LONG: '' @ ''36.82'')) = (None, None)"
    by (rule extract_coordinates_spec [THEN conjunct2, THEN conjunct2, THEN conjunct2, THEN conjunct1, rule_format])
  then have 3: "extract_coordinates (Str ''LAT: north LONG: 36.82'') = (None, None)" by simp
  show ?thesis using 1 2 3 by simp
qed

section \<open>OptimizeRoutes\<close>

lemma upd_group_keys [simp]: "map fst (upd_group r x d) = map fst d"
  by (induction d) (auto simp: upd_group_def)

lemma upd_group_absent: "r \<notin> set (map fst d) \<Longrightarrow> upd_group r x d = d"
  by (induction d) (auto simp: upd_group_def)

lemma upd_group_append: "upd_group r x (d @ e) = upd_group r x d @ upd_group r x e"
  by (simp add: upd_group_def)

lemma upd_group_mset:
  "r \<in> set (map fst d) \<Longrightarrow> distinct (map fst d) \<Longrightarrow>
     mset (concat (map snd (upd_group r x d))) = add_mset x (mset (concat (map snd d)))"
proof (induction d)
  case Nil
  then show ?case by simp
next
  case (Cons kv d)
  obtain k v where kv: "kv = (k, v)" by (cases kv)
  show ?case
  proof (cases "k = r")
    case True
    then have "r \<notin> set (map fst d)" using Cons.prems kv by simp
    then have "upd_group r x d = d" by (rule upd_group_absent)
    then have "upd_group r x (kv # d) = (k, v @ [x]) # d"
      using True kv by (simp add: upd_group_def)
    then show ?thesis using kv by simp
  next
    case False
    then have "r \<in> set (map fst d)" "distinct (map fst d)" using Cons.prems kv by auto
    then have "mset (concat (map snd (upd_group r x d))) = add_mset x (mset (concat (map snd d)))"
      by (rule Cons.IH)
    moreover have "upd_group r x (kv # d) = (k, v) # upd_group r x d"
      using False kv by (simp add: upd_group_def)
    ultimately show ?thesis using kv by simp
  qed
qed

lemma add_order_alt:
  "add_order d order =
     (if o_rp order \<in> set (map fst d) then upd_group (o_rp order) order d
      else d @ [(o_rp order, [order])])"
  by (simp add: add_order_def upd_group_def [symmetric] Let_def upd_group_append upd_group_absent)
     (simp add: upd_group_def)

lemma add_order_keys:
  "map fst (add_order d order) =
     (if o_rp order \<in> set (map fst d) then map fst d else map fst d @ [o_rp order])"
  by (simp add: add_order_alt)

lemma add_order_distinct: "distinct (map fst d) \<Longrightarrow> distinct (map fst (add_order d order))"
  by (simp add: add_order_keys)

lemma add_order_mset:
  "distinct (map fst d) \<Longrightarrow>
     mset (concat (map snd (add_order d order))) = add_mset order (mset (concat (map snd d)))"
  by (simp add: add_order_alt upd_group_mset)

lemma foldl_add_order:
  "distinct (map fst d) \<Longrightarrow>
     distinct (map fst (foldl add_order d orders)) \<and>
     mset (concat (map snd (foldl add_order d orders))) = mset (concat (map snd d)) + mset orders"
proof (induction orders arbitrary: d)
  case Nil
  then show ?case by simp
next
  case (Cons order orders)
  have "distinct (map fst (add_order d order))" using Cons.prems by (rule add_order_distinct)
  from Cons.IH [OF this] show ?case using Cons.prems by (simp add: add_order_mset)
qed

lemma group_orders_distinct: "distinct (map fst (group_orders orders))"
  using foldl_add_order [of "[]" orders] by (simp add: group_orders_def)

lemma group_orders_mset: "mset (concat (map snd (group_orders orders))) = mset orders"
  using foldl_add_order [of "[]" orders] by (simp add: group_orders_def)

lemma set_sequence_no_seq: "map no_seq (set_sequence i s ros) = map no_seq ros"
  by (induction ros) (simp_all add: no_seq_def)

lemma assign_sequences_no_seq: "map no_seq (assign_sequences idx ids ros) = map no_seq ros"
  by (induction ids arbitrary: idx ros) (simp_all add: set_sequence_no_seq)

lemma optimize_group_no_seq: "map no_seq (fst (optimize_group post g)) = map no_seq (snd g)"
  by (cases g) (simp add: optimize_group_def assign_sequences_no_seq split: optimize_response.split)

lemma optimize_route_foldl:
  "foldl (\<lambda>(optimized_orders, log) g.
              case optimize_group post g of
                (os, ws) \<Rightarrow> (optimized_orders @ os, log @ ws)) (acc, l) gs =
   (acc @ concat (map (\<lambda>g. fst (optimize_group post g)) gs),
    l @ concat (map (\<lambda>g. snd (optimize_group post g)) gs))"
  by (induction gs arbitrary: acc l) (simp_all split: prod.splits)

lemma optimize_route_concat:
  "optimize_route orders post =
     (concat (map (\<lambda>g. fst (optimize_group post g)) (group_orders orders)),
      concat (map (\<lambda>g. snd (optimize_group post g)) (group_orders orders)))"
  by (simp add: optimize_route_def optimize_route_foldl)

lemma map_no_seq_concat:
  "map no_seq (concat (map (\<lambda>g. fst (optimize_group post g)) gs)) = map no_seq (concat (map snd gs))"
  by (induction gs) (simp_all add: optimize_group_no_seq)

text \<open>
  C10.  Whatever the remote service answers, \<open>optimize_route\<close> returns the orders it was
  given, each as often as it was given, possibly in another order and differing at most in
  the field \<open>sequence\<close>.
\<close>

theorem optimize_route_preserves_orders:
  "mset (map (\<lambda>order. order\<lparr>o_sequence := None\<rparr>) (fst (optimize_route orders post))) =
   mset (map (\<lambda>order. order\<lparr>o_sequence := None\<rparr>) orders)"
proof -
  have "mset (map no_seq (fst (optimize_route orders post))) =
        mset (map no_seq (concat (map snd (group_orders orders))))"
    by (simp add: optimize_route_concat map_no_seq_concat)
  also have "\<dots> = image_mset no_seq (mset (concat (map snd (group_orders orders))))"
    by simp
  also have "\<dots> = mset (map no_seq orders)"
    by (simp add: group_orders_mset)
  finally show ?thesis by (simp add: no_seq_def [abs_def])
qed

lemma set_sequence_ids [simp]: "map o_id (set_sequence i s ros) = map o_id ros"
  by (induction ros) simp_all

lemma set_sequence_length [simp]: "length (set_sequence i s ros) = length ros"
  by (induction ros) simp_all

lemma assign_sequences_ids [simp]: "map o_id (assign_sequences idx ids ros) = map o_id ros"
  by (induction ids arbitrary: idx ros) simp_all

lemma assign_sequences_length [simp]: "length (assign_sequences idx ids ros) = length ros"
  by (induction ids arbitrary: idx ros) simp_all

















section \<open>CreateOrders\<close>

lemmas order_eval = example_order_def py_str_def

text \<open>
  C3.  The claim says that a network error or an undecodable answer of one \<open>createOrder\<close>
  call is reported for that order and that the batch continues.  In \<open>send_orders\<close>
  the call is outside any \<open>try\<close>: on a batch of two orders whose first call raises, the
  run ends with that exception, nothing is reported, and the second order is never posted.
\<close>

theorem send_orders_network_error_aborts:
  "send_orders (\<lambda>i :: int. ''id'') [example_order 0 ''KBX'', example_order 0 ''KCA'']
      (\<lambda>k order. if k = 0 then CreateRaises ''connection reset'' else CreateOther 7)
      post_optimize post_update =
     \<lparr>r_log = [], r_created = [], r_posted = [example_order 0 ''KBX''],
      r_raised = Some (RequestException ''connection reset'')\<rparr>"
  by (simp add: send_orders_def)

text \<open>An error object, in contrast, is reported and the loop goes on to the next order.\<close>

lemma send_orders_error_object_continues:
  "r_raised (send_orders (\<lambda>i :: int. ''id'') [example_order 0 ''KBX'', example_order 0 ''KCA'']
      (\<lambda>k order. if k = 0 then CreateError ''full'' else CreateOther 7)
      post_optimize post_update) = None
   \<and> r_created (send_orders (\<lambda>i :: int. ''id'') [example_order 0 ''KBX'', example_order 0 ''KCA'']
      (\<lambda>k order. if k = 0 then CreateError ''full'' else CreateOther 7)
      post_optimize post_update) = [example_order 7 ''KCA'']
   \<and> r_posted (send_orders (\<lambda>i :: int. ''id'') [example_order 0 ''KBX'', example_order 0 ''KCA'']
      (\<lambda>k order. if k = 0 then CreateError ''full'' else CreateOther 7)
      post_optimize post_update) = [example_order 0 ''KBX'', example_order 0 ''KCA'']"
  by (simp add: send_orders_def Let_def example_order_def split: prod.splits)

section \<open>OrderBuilder\<close>

lemma example_coords:
  "extract_coordinates (Str ''LAT: -1.28 LONG: 36.82'') =
     (Some (Finite (- (5764607523034235 / 4503599627370496))),
      Some (Finite (5181954321243177 / 140737488355328)))"
  using extract_coordinates_coords [of "''-1.28''" "''36.82''"] f1 f2 by simp

lemma example_row_cells:
  "example_row t ''COORDINATES'' = Some (Str ''LAT: -1.28 LONG: 36.82'')"
  "example_row t ''TONNAGE'' = Some (Str t)"
  "example_row t ''Correct County'' = Some (Str ''Nairobi'')"
  "example_row t ''CUSTOMER NAME'' = Some (Str ''Acme'')"
  "example_row t ''AMOUNT'' = Some (Str ''100'')"
  "example_row t ''CUSTOMER ID'' = Some (Str ''C1'')"
  "example_row t ''INVOICE NO'' = None"
  "example_row t ''INVOICE NO.'' = Some (Str ''INV1'')"
  by (simp_all add: example_row_def)

lemma f4: "float_of_str ''2'' = Some (Finite 2)"
  by (simp add: parse_eval float_eval)

lemma t4: "to_double 2000 = Finite 2000"
  by (simp add: float_eval)

lemma w4: "order_weight (example_row ''2'') = Inr 2000"
  by (simp add: order_weight_def example_row_cells truthy_def float_of_cell_def f4 times_1000_def t4
        int_of_float_def)

text \<open>
  C1.  The claim says that for a record with parseable coordinates \<open>convert_to_orders\<close>
  returns an order carrying the record's invoice number.  The code reads the column
  \<open>INVOICE NO\<close>, while the table column (in \<open>REQUIRED_COLUMNS\<close> and in the frame that
  \<open>read_pdf_to_df\<close> displays) is \<open>INVOICE NO.\<close>: on the record of the specification's
  scenario the function raises KeyError instead of returning.
\<close>

theorem convert_to_orders_key_error:
  "(convert_to_orders [example_row ''2''] tf tt county_asset :: error + int order list) =
     Inl (KeyError ''INVOICE NO'')"
  by (simp add: convert_row_def sbind_def getitem_def example_coords w4 Let_def example_row_cells)

lemma convert_row_needs_invoice_no:
  "r ''INVOICE NO'' = None \<Longrightarrow> convert_row r tf tt county_asset \<noteq> Inr (Some order)"
  by (auto simp: convert_row_def sbind_def getitem_def Let_def
           split: sum.splits option.splits prod.splits)

lemma convert_row_with_invoice_no:
  "(convert_row ((example_row ''2'')(''INVOICE NO'' \<mapsto> Str ''INV1'')) tf tt Map.empty
      :: error + int order option) =
   Inr (Some
     \<lparr>o_itemId = 25601229, o_id = 0, o_n = Str ''Acme'', o_oldOrderId = 0, o_oldOrderFiles = [],
      o_p = \<lparr>p_n = Str ''Acme'',
             p_a = Address (Str ''Nairobi'') (Finite (- (5764607523034235 / 4503599627370496)))
                     (Some (Finite (5181954321243177 / 140737488355328))),
             p_w = 2000, p_c = Str ''100'', p_cid = ''C1'', p_uic = ''INV1'',
             p_cm = ''Handle with care''\<rparr>,
      o_rp = ''Unassigned'', o_tf = tf, o_tt = tt, o_trt = 600, o_r = 20,
      o_y = Finite (- (5764607523034235 / 4503599627370496)),
      o_x = Some (Finite (5181954321243177 / 140737488355328)), o_tz = 3, o_ej = [],
      o_callMode = ''create'', o_dp = [],
      o_cf = [(''delivery_notes'', []), (''payment_status'', [])],
      o_routing_mode = ''optimal'', o_path_type = ''optimal'', o_sequence = None\<rparr>)"
proof -
  have w: "order_weight ((example_row ''2'')(''INVOICE NO'' \<mapsto> Str ''INV1'')) = Inr 2000"
    by (simp add: order_weight_def example_row_cells truthy_def float_of_cell_def f4 times_1000_def t4
        int_of_float_def)
  show ?thesis
    by (simp add: convert_row_def sbind_def getitem_def example_coords w Let_def example_row_cells
        lookup_asset_def py_str_def)
qed


lemma f5: "float_of_str ''2.0007'' = Some (Finite (1126293971810019 / 562949953421312))"
  by (simp add: parse_eval float_eval)

lemma t5: "to_double (1126293971810019 / 562949953421312 * 1000) = Finite (8799171654765773 / 4398046511104)"
  by (simp add: float_eval)

lemma f6: "float_of_str ''abc'' = None"
  by (simp add: parse_eval)

lemma w5: "order_weight (example_row ''2.0007'') = Inr 2000"
  using t5
  by (simp add: order_weight_def example_row_cells truthy_def float_of_cell_def f5 times_1000_def
        int_of_float_def floor_rat_num)

lemma w6: "order_weight (example_row ''abc'') = Inl (ValueError ''could not convert string to float'')"
  by (simp add: order_weight_def example_row_cells truthy_def float_of_cell_def f6)

lemma round_rat_num: "round ((numeral a :: rat) / numeral b) = (2 * numeral a + numeral b) div (2 * numeral b)"
proof -
  have "(numeral a :: rat) / numeral b + 1 / 2 = of_int (2 * numeral a + numeral b) / of_int (2 * numeral b)"
    by (simp add: field_simps)
  then show ?thesis unfolding round_def by (simp only: floor_divide_of_int_eq)
qed

lemma s5: "spec_weight (example_row ''2.0007'') = 2001"
  using t5 by (simp add: spec_weight_def example_row_cells f5 round_rat_num)

lemma s6: "spec_weight (example_row ''abc'') = 0"
  by (simp add: spec_weight_def example_row_cells f6)

text \<open>
  C5, as stated, fails: a tonnage that is not a float literal raises instead of giving 0,
  and the product is truncated, not rounded to the nearest integer.
\<close>

theorem order_weight_counterexample:
  "order_weight (example_row ''abc'') \<noteq> Inr (spec_weight (example_row ''abc''))
   \<and> order_weight (example_row ''2.0007'') \<noteq> Inr (spec_weight (example_row ''2.0007''))"
  by (simp add: w5 w6 s5 s6)

text \<open>
  C5, amended.  The weight is 0 when the tonnage is absent, \<open>None\<close> or the empty string;
  it is \<open>float(tonnage) * 1000\<close> truncated toward zero when the tonnage is a float literal
  with a finite product; a non-empty tonnage that is not a float literal raises ValueError.
\<close>

theorem order_weight_cases:
  "(\<forall>r. r ''TONNAGE'' = None \<or> r ''TONNAGE'' = Some (Str []) \<or> r ''TONNAGE'' = Some NoneV \<longrightarrow>
        order_weight r = Inr 0)
   \<and> (\<forall>r s a b. r ''TONNAGE'' = Some (Str s) \<and> float_of_str s = Some (Finite a) \<and>
          to_double (a * 1000) = Finite b \<longrightarrow>
        order_weight r = Inr (if 0 \<le> b then \<lfloor>b\<rfloor> else \<lceil>b\<rceil>))
   \<and> (\<forall>r s. r ''TONNAGE'' = Some (Str s) \<and> s \<noteq> [] \<and> float_of_str s = None \<longrightarrow>
        order_weight r = Inl (ValueError ''could not convert string to float''))"
proof (intro conjI allI impI)
  fix r :: row
  assume "r ''TONNAGE'' = None \<or> r ''TONNAGE'' = Some (Str []) \<or> r ''TONNAGE'' = Some NoneV"
  then show "order_weight r = Inr 0"
    by (auto simp: order_weight_def truthy_def)
next
  fix r :: row and s a b
  assume h: "r ''TONNAGE'' = Some (Str s) \<and> float_of_str s = Some (Finite a) \<and>
          to_double (a * 1000) = Finite b"
  have "float_of_str [] = None" by (simp add: parse_eval)
  then have "s \<noteq> []" using h by auto
  then show "order_weight r = Inr (if 0 \<le> b then \<lfloor>b\<rfloor> else \<lceil>b\<rceil>)"
    using h by (simp add: order_weight_def truthy_def float_of_cell_def times_1000_def int_of_float_def)
next
  fix r :: row and s
  assume "r ''TONNAGE'' = Some (Str s) \<and> s \<noteq> [] \<and> float_of_str s = None"
  then show "order_weight r = Inl (ValueError ''could not convert string to float'')"
    by (simp add: order_weight_def truthy_def float_of_cell_def)
qed

theorem order_weight_cases_witness:
  "order_weight (example_row []) = Inr 0
   \<and> order_weight (example_row ''2.0007'') = Inr 2000
   \<and> order_weight (example_row ''abc'') = Inl (ValueError ''could not convert string to float'')"
proof -
  have 1: "order_weight (example_row []) = Inr 0"
    using order_weight_cases [THEN conjunct1, rule_format, of "example_row []"]
    by (simp add: example_row_cells)
  have h2: "example_row ''2.0007'' ''TONNAGE'' = Some (Str ''2.0007'') \<and>
        float_of_str ''2.0007'' = Some (Finite (1126293971810019 / 562949953421312)) \<and>
        to_double (1126293971810019 / 562949953421312 * 1000) = Finite (8799171654765773 / 4398046511104)"
    using f5 t5 by (simp add: example_row_cells)
  have 2: "order_weight (example_row ''2.0007'') = Inr 2000"
    using order_weight_cases [THEN conjunct2, THEN conjunct1, rule_format,
        of "example_row ''2.0007''" "''2.0007''" "1126293971810019 / 562949953421312"
           "8799171654765773 / 4398046511104"] h2
    by (simp add: floor_rat_num)
  have h3: "example_row ''abc'' ''TONNAGE'' = Some (Str ''abc'') \<and> ''abc'' \<noteq> [] \<and>
        float_of_str ''abc'' = None"
    using f6 by (simp add: example_row_cells)
  have 3: "order_weight (example_row ''abc'') = Inl (ValueError ''could not convert string to float'')"
    using order_weight_cases [THEN conjunct2, THEN conjunct2, rule_format,
        of "example_row ''abc''" "''abc''"] h3 by blast
  show ?thesis using 1 2 3 by simp
qed

end
